theory Spec2Isabelle
  imports Main "HOL-Library.Sublist" "HOL-Library.AList"
begin

section \<open>Text and character classes\<close>

text \<open>
  The scripts work on Python \<open>str\<close> values.  A text is a \<open>string\<close>; a \<open>char\<close> stands
  for a code point below 256.  The three predicates are the classes \<open>\s\<close>, \<open>\d\<close> and
  \<open>\w\<close> of a \<open>str\<close> pattern on that range, \<open>is_space\<close> is also what \<open>str.strip\<close>
  removes.
\<close>

definition is_space :: "char \<Rightarrow> bool" where
  "is_space c = (let n = (of_char c :: nat) in
     (9 \<le> n \<and> n \<le> 13) \<or> (28 \<le> n \<and> n \<le> 32) \<or> n = 133 \<or> n = 160)"

definition is_digit :: "char \<Rightarrow> bool" where
  "is_digit c = (let n = (of_char c :: nat) in 48 \<le> n \<and> n \<le> 57)"

definition is_word :: "char \<Rightarrow> bool" where
  "is_word c = (let n = (of_char c :: nat) in
     (48 \<le> n \<and> n \<le> 57) \<or> (65 \<le> n \<and> n \<le> 90) \<or> n = 95 \<or> (97 \<le> n \<and> n \<le> 122)
     \<or> n = 170 \<or> n = 178 \<or> n = 179 \<or> n = 181 \<or> n = 185 \<or> n = 186
     \<or> (188 \<le> n \<and> n \<le> 190) \<or> (192 \<le> n \<and> n \<le> 214) \<or> (216 \<le> n \<and> n \<le> 246)
     \<or> 248 \<le> n)"

section \<open>Regular expressions as \<open>re\<close> runs them\<close>

text \<open>
  The patterns of the scripts use literals, the classes above, negated single
  characters (\<open>[^}]\<close>), the dot under \<open>re.DOTALL\<close>, greedy and lazy repetition,
  alternation, capturing groups and \<open>\b\<close>.
\<close>

datatype cset = CChar char | CNot char | CSpace | CDigit | CWord | CAny

fun cmatch :: "cset \<Rightarrow> char \<Rightarrow> bool" where
  "cmatch (CChar a) c = (c = a)"
| "cmatch (CNot a) c = (c \<noteq> a)"
| "cmatch CSpace c = is_space c"
| "cmatch CDigit c = is_digit c"
| "cmatch CWord c = is_word c"
| "cmatch CAny c = True"

datatype regex =
    Eps
  | Sym cset
  | Seq regex regex
  | Alt regex regex
  | Star regex
  | LazyStar regex
  | Group nat regex
  | WordB

fun Lit :: "string \<Rightarrow> regex" where
  "Lit [] = Eps"
| "Lit (c # cs) = Seq (Sym (CChar c)) (Lit cs)"

definition Plus :: "regex \<Rightarrow> regex" where
  "Plus r = Seq r (Star r)"

fun Seqs :: "regex list \<Rightarrow> regex" where
  "Seqs [] = Eps"
| "Seqs [r] = r"
| "Seqs (r # rs) = Seq r (Seqs rs)"

fun Alts :: "regex list \<Rightarrow> regex" where
  "Alts [] = Eps"
| "Alts [r] = r"
| "Alts (r # rs) = Alt r (Alts rs)"

text \<open>
  A matcher state is the character before the current position (for \<open>\b\<close>), the
  text still to read, and the groups captured so far.  \<open>ms r q\<close> lists every way \<open>r\<close>
  can match at \<open>q\<close>, in the order in which the backtracking matcher tries them, so that
  its head is the match \<open>re\<close> reports.  A repetition only iterates a body match that
  consumed text.
\<close>

type_synonym caps = "nat \<Rightarrow> string option"

datatype mstate = St (prevc: "char option") (rest: string) (caps: caps)

definition word_before :: "char option \<Rightarrow> bool" where
  "word_before p = (case p of None \<Rightarrow> False | Some c \<Rightarrow> is_word c)"

definition word_after :: "string \<Rightarrow> bool" where
  "word_after s = (case s of [] \<Rightarrow> False | c # _ \<Rightarrow> is_word c)"

function ms :: "regex \<Rightarrow> mstate \<Rightarrow> mstate list" where
  "ms Eps q = [q]"
| "ms (Sym cs) (St p s g) = (case s of [] \<Rightarrow> []
     | c # s' \<Rightarrow> if cmatch cs c then [St (Some c) s' g] else [])"
| "ms (Seq a b) q = concat (map (ms b) (ms a q))"
| "ms (Alt a b) q = ms a q @ ms b q"
| "ms (Star a) q =
     concat (map (\<lambda>q'. if length (rest q') < length (rest q) then ms (Star a) q' else [])
                 (ms a q)) @ [q]"
| "ms (LazyStar a) q =
     q # concat (map (\<lambda>q'. if length (rest q') < length (rest q) then ms (LazyStar a) q' else [])
                     (ms a q))"
| "ms (Group n a) q =
     map (\<lambda>q'. St (prevc q') (rest q')
                   ((caps q')(n \<mapsto> take (length (rest q) - length (rest q')) (rest q))))
         (ms a q)"
| "ms WordB q = (if word_before (prevc q) \<noteq> word_after (rest q) then [q] else [])"
  by pat_completeness auto
termination
  by (relation "measures [\<lambda>(r, q). size r, \<lambda>(r, q). length (rest q)]") auto

section \<open>\<open>re.search\<close> and \<open>re.sub\<close>\<close>

text \<open>
  \<open>first_match\<close> is one attempt of the matcher at the current position.  After an empty
  match \<open>re.sub\<close> asks the next attempt at the same position to advance
  (\<open>must_advance\<close>): the matcher then rejects an empty result and goes on backtracking.
\<close>

definition first_match :: "bool \<Rightarrow> regex \<Rightarrow> char option \<Rightarrow> string \<Rightarrow> mstate option" where
  "first_match ma r p s =
     find (\<lambda>q. \<not> ma \<or> length (rest q) < length s) (ms r (St p s Map.empty))"

text \<open>
  A match object: the text skipped before the match, the matched text (group 0), the
  text after it, and the groups.
\<close>

record re_match =
  skipped :: string
  group0 :: string
  remaining :: string
  groups :: caps

definition mk_match :: "string \<Rightarrow> mstate \<Rightarrow> re_match" where
  "mk_match s q = \<lparr> skipped = [], group0 = take (length s - length (rest q)) s,
     remaining = rest q, groups = caps q \<rparr>"

text \<open>The scan of \<open>re.search\<close>: the leftmost position at which the matcher succeeds.\<close>

fun search :: "regex \<Rightarrow> bool \<Rightarrow> char option \<Rightarrow> string \<Rightarrow> re_match option" where
  "search r ma p [] = map_option (mk_match []) (first_match ma r p [])"
| "search r ma p (c # cs) =
     (case first_match ma r p (c # cs) of
        Some q \<Rightarrow> Some (mk_match (c # cs) q)
      | None \<Rightarrow> map_option (\<lambda>m. m\<lparr>skipped := c # skipped m\<rparr>) (search r False (Some c) cs))"

text \<open>
  \<open>match.group(n)\<close>; in a replacement template a group that took no part in the match
  is the empty string.
\<close>

definition group :: "re_match \<Rightarrow> nat \<Rightarrow> string" where
  "group m n = (if n = 0 then group0 m else case groups m n of None \<Rightarrow> [] | Some w \<Rightarrow> w)"

declare ms.simps(5,6) [simp del]

lemma ms_Star_mem:
  "q' \<in> set (ms (Star a) q) \<longleftrightarrow>
     q' = q \<or> (\<exists>q1 \<in> set (ms a q). length (rest q1) < length (rest q) \<and> q' \<in> set (ms (Star a) q1))"
  by (subst ms.simps(5)) auto

lemma ms_LazyStar_mem:
  "q' \<in> set (ms (LazyStar a) q) \<longleftrightarrow>
     q' = q \<or> (\<exists>q1 \<in> set (ms a q). length (rest q1) < length (rest q) \<and> q' \<in> set (ms (LazyStar a) q1))"
  by (subst ms.simps(6)) auto

lemma ms_length: "q' \<in> set (ms r q) \<Longrightarrow> length (rest q') \<le> length (rest q)"
proof (induction r q arbitrary: q' rule: ms.induct)
  case (1 q) then show ?case by simp
next
  case (2 cs p s g)
  then show ?case by (auto split: list.splits if_splits)
next
  case (3 a b q)
  then obtain q1 where "q1 \<in> set (ms a q)" "q' \<in> set (ms b q1)" by auto
  with 3 show ?case by fastforce
next
  case (4 a b q) then show ?case by auto
next
  case (5 a q)
  from 5(3) have "q' = q \<or> (\<exists>q1 \<in> set (ms a q). length (rest q1) < length (rest q) \<and> q' \<in> set (ms (Star a) q1))"
    by (subst (asm) ms_Star_mem)
  then show ?case
  proof
    assume "q' = q" then show ?thesis by simp
  next
    assume "\<exists>q1 \<in> set (ms a q). length (rest q1) < length (rest q) \<and> q' \<in> set (ms (Star a) q1)"
    then obtain q1 where q1: "q1 \<in> set (ms a q)" "length (rest q1) < length (rest q)" "q' \<in> set (ms (Star a) q1)" by blast
    from 5(2) [OF q1] 5(1) [OF q1(1)] show ?thesis by simp
  qed
next
  case (6 a q)
  from 6(3) have "q' = q \<or> (\<exists>q1 \<in> set (ms a q). length (rest q1) < length (rest q) \<and> q' \<in> set (ms (LazyStar a) q1))"
    by (subst (asm) ms_LazyStar_mem)
  then show ?case
  proof
    assume "q' = q" then show ?thesis by simp
  next
    assume "\<exists>q1 \<in> set (ms a q). length (rest q1) < length (rest q) \<and> q' \<in> set (ms (LazyStar a) q1)"
    then obtain q1 where q1: "q1 \<in> set (ms a q)" "length (rest q1) < length (rest q)" "q' \<in> set (ms (LazyStar a) q1)" by blast
    from 6(2) [OF q1] 6(1) [OF q1(1)] show ?thesis by simp
  qed
next
  case (7 n a q)
  then show ?case by auto
next
  case (8 q) then show ?case by (auto split: if_splits)
qed

lemma first_match_length:
  "first_match ma r p s = Some q \<Longrightarrow>
     length (rest q) \<le> length s \<and> (ma \<longrightarrow> length (rest q) < length s)"
  unfolding first_match_def
  by (auto simp: find_Some_iff dest!: ms_length [OF nth_mem])

lemma search_length:
  "search r ma p s = Some m \<Longrightarrow>
     length (remaining m) \<le> length s \<and>
     (ma \<or> skipped m \<noteq> [] \<or> group0 m \<noteq> [] \<longrightarrow> length (remaining m) < length s)"
proof (induction s arbitrary: ma p m)
  case Nil
  then show ?case by (auto simp: mk_match_def dest: first_match_length)
next
  case (Cons c cs)
  show ?case
  proof (cases "first_match ma r p (c # cs)")
    case (Some q)
    with Cons.prems have m: "m = mk_match (c # cs) q" by simp
    from first_match_length [OF Some] show ?thesis
      by (auto simp: m mk_match_def)
  next
    case None
    with Cons.prems obtain m' where m': "search r False (Some c) cs = Some m'"
      and m: "m = m'\<lparr>skipped := c # skipped m'\<rparr>" by auto
    from Cons.IH [OF m'] show ?thesis by (simp add: m)
  qed
qed

text \<open>The character before the position reached after reading \<open>w\<close>.\<close>

definition prev_char :: "char option \<Rightarrow> string \<Rightarrow> char option" where
  "prev_char p w = (if w = [] then p else Some (last w))"

text \<open>
  The loop of \<open>re.sub\<close>: copy the text before each match, then the replacement, and go
  on after the match; an empty match sets \<open>must_advance\<close> for the next search.
\<close>

function sub_loop :: "regex \<Rightarrow> (re_match \<Rightarrow> string) \<Rightarrow> bool \<Rightarrow> char option \<Rightarrow> string \<Rightarrow> string" where
  "sub_loop r f ma p s =
     (case search r ma p s of
        None \<Rightarrow> s
      | Some m \<Rightarrow> skipped m @ f m @ sub_loop r f (group0 m = []) (prev_char p (skipped m @ group0 m)) (remaining m))"
  by pat_completeness auto
termination
proof (relation "measures [\<lambda>(r, f, ma, p, s). length s, \<lambda>(r, f, ma, p, s). if ma then 0 else 1]")
  show "wf (measures [\<lambda>(r, f, ma, p, s). length s, \<lambda>(r, f, ma, p, s). if ma then 0 else (1::nat)])"
    by simp
next
  fix r :: regex and f :: "re_match \<Rightarrow> string" and ma p s m
  assume "search r ma p s = Some m"
  from search_length [OF this]
  show "((r, f, group0 m = [], prev_char p (skipped m @ group0 m), remaining m), (r, f, ma, p, s))
      \<in> measures [\<lambda>(r, f, ma, p, s). length s, \<lambda>(r, f, ma, p, s). if ma then 0 else 1]"
    by auto
qed

declare sub_loop.simps [simp del]

definition re_sub :: "regex \<Rightarrow> (re_match \<Rightarrow> string) \<Rightarrow> string \<Rightarrow> string" where
  "re_sub r f s = sub_loop r f False None s"

definition re_search :: "regex \<Rightarrow> string \<Rightarrow> re_match option" where
  "re_search r s = search r False None s"

text \<open>
  \<open>re.finditer\<close> runs the same loop and yields the match objects; these are also the
  matches that \<open>re.sub\<close> replaces.
\<close>

function find_loop :: "regex \<Rightarrow> bool \<Rightarrow> char option \<Rightarrow> string \<Rightarrow> re_match list" where
  "find_loop r ma p s =
     (case search r ma p s of
        None \<Rightarrow> []
      | Some m \<Rightarrow> m # find_loop r (group0 m = []) (prev_char p (skipped m @ group0 m)) (remaining m))"
  by pat_completeness auto
termination
proof (relation "measures [\<lambda>(r, ma, p, s). length s, \<lambda>(r, ma, p, s). if ma then 0 else 1]")
  show "wf (measures [\<lambda>(r, ma, p, s). length s, \<lambda>(r, ma, p, s). if ma then 0 else (1::nat)])"
    by simp
next
  fix r :: regex and ma p s m
  assume "search r ma p s = Some m"
  from search_length [OF this]
  show "((r, group0 m = [], prev_char p (skipped m @ group0 m), remaining m), (r, ma, p, s))
      \<in> measures [\<lambda>(r, ma, p, s). length s, \<lambda>(r, ma, p, s). if ma then 0 else 1]"
    by auto
qed

declare find_loop.simps [simp del]

definition re_finditer :: "regex \<Rightarrow> string \<Rightarrow> re_match list" where
  "re_finditer r s = find_loop r False None s"

text \<open>The text after the last match.\<close>

function tail_loop :: "regex \<Rightarrow> bool \<Rightarrow> char option \<Rightarrow> string \<Rightarrow> string" where
  "tail_loop r ma p s =
     (case search r ma p s of
        None \<Rightarrow> s
      | Some m \<Rightarrow> tail_loop r (group0 m = []) (prev_char p (skipped m @ group0 m)) (remaining m))"
  by pat_completeness auto
termination
proof (relation "measures [\<lambda>(r, ma, p, s). length s, \<lambda>(r, ma, p, s). if ma then 0 else 1]")
  show "wf (measures [\<lambda>(r, ma, p, s). length s, \<lambda>(r, ma, p, s). if ma then 0 else (1::nat)])"
    by simp
next
  fix r :: regex and ma p s m
  assume "search r ma p s = Some m"
  from search_length [OF this]
  show "((r, group0 m = [], prev_char p (skipped m @ group0 m), remaining m), (r, ma, p, s))
      \<in> measures [\<lambda>(r, ma, p, s). length s, \<lambda>(r, ma, p, s). if ma then 0 else 1]"
    by auto
qed

declare tail_loop.simps [simp del]

definition re_tail :: "regex \<Rightarrow> string \<Rightarrow> string" where
  "re_tail r s = tail_loop r False None s"

section \<open>String methods\<close>

text \<open>\<open>needle in s\<close>, \<open>s.replace(old, new)\<close>, \<open>s.strip()\<close>, \<open>s.split(sep)\<close> for a
  separator of one character, and \<open>str(n)\<close> for a natural number.\<close>

fun contains :: "string \<Rightarrow> string \<Rightarrow> bool" where
  "contains needle [] = (needle = [])"
| "contains needle (c # cs) = (prefix needle (c # cs) \<or> contains needle cs)"

fun replace :: "string \<Rightarrow> string \<Rightarrow> string \<Rightarrow> string" where
  "replace old new [] = (if old = [] then new else [])"
| "replace old new (c # cs) =
     (if old = [] then new @ c # replace old new cs
      else if prefix old (c # cs) then new @ replace old new (drop (length old - 1) cs)
      else c # replace old new cs)"

definition strip :: "string \<Rightarrow> string" where
  "strip s = rev (dropWhile is_space (rev (dropWhile is_space s)))"

function split_on :: "char \<Rightarrow> string \<Rightarrow> string list" where
  "split_on sep s =
     (case dropWhile (\<lambda>c. c \<noteq> sep) s of
        [] \<Rightarrow> [s]
      | _ # s' \<Rightarrow> takeWhile (\<lambda>c. c \<noteq> sep) s # split_on sep s')"
  by pat_completeness auto
termination
proof (relation "measure (\<lambda>(sep, s). length s)")
  show "wf (measure (\<lambda>(sep, s). length s))" by simp
next
  fix sep :: char and s x s'
  assume "dropWhile (\<lambda>c. c \<noteq> sep) s = x # s'"
  then have "length (x # s') \<le> length s"
    by (metis length_dropWhile_le)
  then show "((sep, s'), (sep, s)) \<in> measure (\<lambda>(sep, s). length s)" by simp
qed

declare split_on.simps [simp del]

definition digit_char :: "nat \<Rightarrow> char" where
  "digit_char d = ''0123456789'' ! d"

function str_nat :: "nat \<Rightarrow> string" where
  "str_nat n = (if n < 10 then [digit_char n] else str_nat (n div 10) @ [digit_char (n mod 10)])"
  by pat_completeness auto
termination
  by (relation "measure id") auto

declare str_nat.simps [simp del]

section \<open>Files and runs\<close>

text \<open>
  Every script reads one file (or a directory tree), transforms the text in memory and
  writes it back.  A file system is a list of paths with what is stored there; a run ends
  with the file system it leaves, the lines it printed (one text per \<open>print\<close> call), and
  the exception that ended it, if any.
\<close>

datatype py_error = FileNotFoundError | PermissionError | IsADirectoryError | SystemExit nat

text \<open>A node is a directory or a regular file: its text, whether it can be read, whether
  it can be written.\<close>

datatype node = Dir | File string bool bool

type_synonym fs = "(string \<times> node) list"

record run =
  files :: fs
  printed :: "string list"
  raised :: "py_error option"

definition open_read :: "fs \<Rightarrow> string \<Rightarrow> py_error + string" where
  "open_read fs path =
     (case map_of fs path of
        None \<Rightarrow> Inl FileNotFoundError
      | Some Dir \<Rightarrow> Inl IsADirectoryError
      | Some (File c r w) \<Rightarrow> if r then Inr c else Inl PermissionError)"

definition open_write :: "fs \<Rightarrow> string \<Rightarrow> string \<Rightarrow> py_error + fs" where
  "open_write fs path text =
     (case map_of fs path of
        None \<Rightarrow> Inr (fs @ [(path, File text True True)])
      | Some Dir \<Rightarrow> Inl IsADirectoryError
      | Some (File c r w) \<Rightarrow>
          if w then Inr (AList.update path (File text r w) fs) else Inl PermissionError)"

text \<open>The frame shared by four of the scripts: read the file, transform, write it back,
  print one line.\<close>

definition rewrite_file :: "string \<Rightarrow> (string \<Rightarrow> string) \<Rightarrow> string \<Rightarrow> fs \<Rightarrow> run" where
  "rewrite_file file_path transform message fs =
     (case open_read fs file_path of
        Inl e \<Rightarrow> \<lparr> files = fs, printed = [], raised = Some e \<rparr>
      | Inr content \<Rightarrow>
          (case open_write fs file_path (transform content) of
             Inl e \<Rightarrow> \<lparr> files = fs, printed = [], raised = Some e \<rparr>
           | Inr fs' \<Rightarrow> \<lparr> files = fs', printed = [message], raised = None \<rparr>))"

definition puppetserver_ts :: string where
  "puppetserver_ts = ''backend/src/routes/integrations/puppetserver.ts''"

text \<open>The check mark that the scripts print, as its UTF-8 bytes.\<close>

definition check_mark :: string where
  "check_mark = [CHR 0xE2, CHR 0x9C, CHR 0x93]"

section \<open>\<open>add-error-debug-info.py\<close>\<close>

definition catch_pattern :: regex where
  "catch_pattern =
     Group 1 (Seqs [Lit ''} catch (error) {'', Star (Sym CSpace),
                    Lit ''const duration = Date.now() - startTime;''])"

definition catch_block_replacement :: "re_match \<Rightarrow> string" where
  \<open>catch_block_replacement m =
     group m 1 @
     ''\<newline>'' @
     ''\<newline>'' @
     ''        if (debugInfo) {\<newline>'' @
     ''          debugInfo.duration = duration;\<newline>'' @
     ''          expertModeService.addError(debugInfo, {\<newline>'' @
     ''            message: `Error: ${error instanceof Error ? error.message : 'Unknown error'}`,\<newline>'' @
     ''            stack: error instanceof Error ? error.stack : undefined,\<newline>'' @
     ''            level: 'error',\<newline>'' @
     ''          });\<newline>'' @
     ''          debugInfo.performance = expertModeService.collectPerformanceMetrics();\<newline>'' @
     ''          debugInfo.context = expertModeService.collectRequestContext(req);\<newline>'' @
     ''        }''\<close>

definition add_debug_to_catch_block :: "string \<Rightarrow> string" where
  "add_debug_to_catch_block content = re_sub catch_pattern catch_block_replacement content"

definition error_response_pattern :: regex where
  "error_response_pattern =
     Seqs [Lit ''res.status('', Group 1 (Plus (Sym CDigit)), Lit '').json({'',
           Star (Sym CSpace), Lit ''error: {'', Group 2 (Plus (Sym (CNot CHR ''}''))),
           Lit ''}'', Star (Sym CSpace), Lit ''});'']"

definition error_response_text :: "string \<Rightarrow> string \<Rightarrow> string" where
  \<open>error_response_text status_code error_content =
     ''const errorResponse = {\<newline>'' @
     ''          error: {'' @
     error_content @
     ''}\<newline>'' @
     ''        };\<newline>'' @
     ''        res.status('' @
     status_code @
     '').json(\<newline>'' @
     ''          debugInfo ? expertModeService.attachDebugInfo(errorResponse, debugInfo) : errorResponse\<newline>'' @
     ''        );''\<close>

definition error_response_replacement :: "re_match \<Rightarrow> string" where
  "error_response_replacement m =
     (let status_code = group m 1; error_content = group m 2
      in error_response_text status_code error_content)"

definition add_debug_to_error_responses :: "string \<Rightarrow> string" where
  "add_debug_to_error_responses content =
     re_sub error_response_pattern error_response_replacement content"

definition early_return_pattern :: regex where
  "early_return_pattern =
     Seqs [Group 1 (Seqs [Lit ''if (!puppetserverService) {'', Plus (Sym (CNot CHR ''}'')),
                          Lit ''logger.warn'', Plus (Sym (CNot CHR ''}'')), Lit ''}'']),
           Star (Sym CSpace),
           Group 2 (Seqs [Lit ''res.status('', Plus (Sym CDigit), Lit '').json({'',
                          Plus (Sym (CNot CHR ''}'')), Lit ''});''])]"

definition status_pattern :: regex where
  "status_pattern =
     Seqs [Lit ''res.status('', Group 1 (Plus (Sym CDigit)), Lit '').json({'',
           Group 2 (Plus (Sym (CNot CHR ''}''))), Lit ''});'']"

definition early_return_text :: "string \<Rightarrow> string \<Rightarrow> string \<Rightarrow> string" where
  \<open>early_return_text condition_block status_code error_content =
     condition_block @
     ''\<newline>'' @
     ''\<newline>'' @
     ''        if (debugInfo) {\<newline>'' @
     ''          debugInfo.duration = Date.now() - startTime;\<newline>'' @
     ''          expertModeService.addWarning(debugInfo, {\<newline>'' @
     ''            message: "Puppetserver integration is not configured",\<newline>'' @
     ''            level: 'warn',\<newline>'' @
     ''          });\<newline>'' @
     ''          debugInfo.performance = expertModeService.collectPerformanceMetrics();\<newline>'' @
     ''          debugInfo.context = expertModeService.collectRequestContext(req);\<newline>'' @
     ''        }\<newline>'' @
     ''\<newline>'' @
     ''        const errorResponse = {\<newline>'' @
     ''          '' @
     error_content @
     ''\<newline>'' @
     ''        };\<newline>'' @
     ''        res.status('' @
     status_code @
     '').json(\<newline>'' @
     ''          debugInfo ? expertModeService.attachDebugInfo(errorResponse, debugInfo) : errorResponse\<newline>'' @
     ''        );''\<close>

text \<open>The replacement function of the early-return pass; its last line is the
  fall-through \<open>return match.group(0)\<close>.\<close>

definition early_return_replacement :: "re_match \<Rightarrow> string" where
  "early_return_replacement m =
     (let condition_block = group m 1; response = group m 2
      in case re_search status_pattern response of
           Some status_match \<Rightarrow>
             early_return_text condition_block (group status_match 1) (group status_match 2)
         | None \<Rightarrow> group m 0)"

definition add_debug_to_early_returns :: "string \<Rightarrow> string" where
  "add_debug_to_early_returns content =
     re_sub early_return_pattern early_return_replacement content"

definition main_add_error_debug_info :: "fs \<Rightarrow> run" where
  "main_add_error_debug_info =
     rewrite_file puppetserver_ts (add_debug_to_error_responses \<circ> add_debug_to_catch_block)
       (check_mark @ '' Added debug info to error responses'')"

section \<open>\<open>add-expert-mode-init.py\<close>\<close>

definition init_pattern :: regex where
  "init_pattern =
     Seqs [Group 1 (Lit ''const startTime = Date.now();''), Star (Sym CSpace),
           Lit ''\<newline>'', Star (Sym CSpace), Lit ''\<newline>'', Star (Sym CSpace),
           Group 2 (Lit ''logger.info('')]"

definition expert_mode_init_replacement :: "re_match \<Rightarrow> string" where
  \<open>expert_mode_init_replacement m =
     group m 1 @
     ''\<newline>'' @
     ''      const expertModeService = new ExpertModeService();\<newline>'' @
     ''      const requestId = req.id ?? expertModeService.generateRequestId();\<newline>'' @
     ''\<newline>'' @
     ''      // Create debug info once at the start if expert mode is enabled\<newline>'' @
     ''      const debugInfo = req.expertMode\<newline>'' @
     ''        ? expertModeService.createDebugInfo('OPERATION_PLACEHOLDER', requestId, 0)\<newline>'' @
     ''        : null;\<newline>'' @
     ''\<newline>'' @
     ''      if (debugInfo) {\<newline>'' @
     ''        expertModeService.setIntegration(debugInfo, 'puppetserver');\<newline>'' @
     ''      }\<newline>'' @
     ''\<newline>'' @
     ''      '' @
     group m 2\<close>

definition add_expert_mode_init :: "string \<Rightarrow> string" where
  "add_expert_mode_init content = re_sub init_pattern expert_mode_init_replacement content"

definition routes :: "(string \<times> string) list" where
  \<open>routes =
     [(''"/nodes/:certname/status"'', ''GET /api/integrations/puppetserver/nodes/:certname/status''),
      (''"/nodes/:certname/facts"'', ''GET /api/integrations/puppetserver/nodes/:certname/facts''),
      (''"/catalog/:certname/:environment"'',
         ''GET /api/integrations/puppetserver/catalog/:certname/:environment''),
      (''"/catalog/compare"'', ''POST /api/integrations/puppetserver/catalog/compare''),
      (''"/environments"'', ''GET /api/integrations/puppetserver/environments''),
      (''"/environments/:name"'', ''GET /api/integrations/puppetserver/environments/:name''),
      (''"/environments/:name/deploy"'',
         ''POST /api/integrations/puppetserver/environments/:name/deploy''),
      (''"/environments/:name/cache"'',
         ''DELETE /api/integrations/puppetserver/environments/:name/cache''),
      (''"/status/services"'', ''GET /api/integrations/puppetserver/status/services''),
      (''"/status/simple"'', ''GET /api/integrations/puppetserver/status/simple''),
      (''"/admin-api"'', ''GET /api/integrations/puppetserver/admin-api''),
      (''"/metrics"'', ''GET /api/integrations/puppetserver/metrics'')]\<close>

text \<open>The pattern built for one route; \<open>re.escape(route_pattern)\<close> matches the route text
  literally, and the dot runs under \<open>re.DOTALL\<close>.\<close>

definition operation_pattern :: "string \<Rightarrow> regex" where
  "operation_pattern route_pattern =
     Seqs [Lit ''router.'', Group 1 (Alts [Lit ''get'', Lit ''post'', Lit ''delete'']), Lit ''('',
           Star (Sym CSpace), Lit route_pattern, LazyStar (Sym CAny),
           Lit ''OPERATION_PLACEHOLDER'']"

definition replace_op :: "string \<Rightarrow> re_match \<Rightarrow> string" where
  "replace_op operation_name m = replace ''OPERATION_PLACEHOLDER'' operation_name (group m 0)"

definition fix_operation_names :: "string \<Rightarrow> string" where
  "fix_operation_names content =
     foldl (\<lambda>content (route_pattern, operation_name).
              re_sub (operation_pattern route_pattern) (replace_op operation_name) content)
           content routes"

definition main_add_expert_mode_init :: "fs \<Rightarrow> run" where
  "main_add_expert_mode_init =
     rewrite_file puppetserver_ts (fix_operation_names \<circ> add_expert_mode_init)
       (check_mark @ '' Added expert mode initialization to routes'')"

section \<open>\<open>fix-all-error-responses.py\<close>\<close>

definition fix_pattern :: regex where
  "fix_pattern =
     Seqs [Lit ''res.status('', Group 1 (Plus (Sym CDigit)), Lit '').json({'',
           Star (Sym CSpace), Lit ''error:'', Star (Sym CSpace), Lit ''{'',
           Group 2 (Seq (Plus (Sym (CNot CHR ''}'')))
                        (Star (Seqs [Lit ''{'', Star (Sym (CNot CHR ''}'')), Lit ''}'',
                                     Star (Sym (CNot CHR ''}''))]))),
           Lit ''}'', Star (Sym CSpace), Lit ''});'']"

definition fixed_error_response_text :: "string \<Rightarrow> string \<Rightarrow> string" where
  \<open>fixed_error_response_text status_code error_content =
     ''const errorResponse = {\<newline>'' @
     ''          error: { '' @
     error_content @
     '' }\<newline>'' @
     ''        };\<newline>'' @
     ''        res.status('' @
     status_code @
     '').json(\<newline>'' @
     ''          debugInfo ? expertModeService.attachDebugInfo(errorResponse, debugInfo) : errorResponse\<newline>'' @
     ''        );''\<close>

definition fix_replacement :: "re_match \<Rightarrow> string" where
  "fix_replacement m =
     (let status_code = group m 1;
          error_content = strip (group m 2);
          error_content = re_sub (Plus (Sym CSpace)) (\<lambda>_. '' '') error_content;
          error_content = replace '' ,'' '','' error_content
      in fixed_error_response_text status_code error_content)"

definition fix_error_responses :: "string \<Rightarrow> string" where
  "fix_error_responses content = re_sub fix_pattern fix_replacement content"

definition pattern1 :: regex where
  "pattern1 =
     Seqs [Group 1 (Seqs [Lit ''if (!puppetserverService) {'', Star (Sym (CNot CHR ''}'')),
                          Lit ''logger.warn'', Star (Sym (CNot CHR ''}'')), Lit ''}'']),
           Star (Sym CSpace), Lit ''res.status'']"

definition add_debug_collection_text :: "string \<Rightarrow> string" where
  \<open>add_debug_collection_text condition =
     condition @
     ''\<newline>'' @
     ''\<newline>'' @
     ''        if (debugInfo) {\<newline>'' @
     ''          debugInfo.duration = Date.now() - startTime;\<newline>'' @
     ''          expertModeService.addWarning(debugInfo, {\<newline>'' @
     ''            message: "Puppetserver integration is not configured",\<newline>'' @
     ''            level: 'warn',\<newline>'' @
     ''          });\<newline>'' @
     ''          debugInfo.performance = expertModeService.collectPerformanceMetrics();\<newline>'' @
     ''          debugInfo.context = expertModeService.collectRequestContext(req);\<newline>'' @
     ''        }\<newline>'' @
     ''\<newline>'' @
     ''        res.status''\<close>

definition add_debug_collection :: "re_match \<Rightarrow> string" where
  "add_debug_collection m = (let condition = group m 1 in add_debug_collection_text condition)"

definition pattern2 :: regex where
  "pattern2 =
     Seqs [Group 1 (Seqs [Lit ''if (!puppetserverService.isInitialized()) {'',
                          Star (Sym (CNot CHR ''}'')), Lit ''logger.warn'',
                          Star (Sym (CNot CHR ''}'')), Lit ''}'']),
           Star (Sym CSpace), Lit ''res.status'']"

definition add_debug_collection2_text :: "string \<Rightarrow> string" where
  \<open>add_debug_collection2_text condition =
     condition @
     ''\<newline>'' @
     ''\<newline>'' @
     ''        if (debugInfo) {\<newline>'' @
     ''          debugInfo.duration = Date.now() - startTime;\<newline>'' @
     ''          expertModeService.addWarning(debugInfo, {\<newline>'' @
     ''            message: "Puppetserver integration is not initialized",\<newline>'' @
     ''            level: 'warn',\<newline>'' @
     ''          });\<newline>'' @
     ''          debugInfo.performance = expertModeService.collectPerformanceMetrics();\<newline>'' @
     ''          debugInfo.context = expertModeService.collectRequestContext(req);\<newline>'' @
     ''        }\<newline>'' @
     ''\<newline>'' @
     ''        res.status''\<close>

definition add_debug_collection2 :: "re_match \<Rightarrow> string" where
  "add_debug_collection2 m = (let condition = group m 1 in add_debug_collection2_text condition)"

definition add_debug_to_early_returns_fix :: "string \<Rightarrow> string" where
  "add_debug_to_early_returns_fix content =
     (let content = re_sub pattern1 add_debug_collection content;
          content = re_sub pattern2 add_debug_collection2 content
      in content)"

text \<open>The message of this script is stored with its check mark mis-decoded; it is
  printed as stored (here as the UTF-8 bytes of those characters).\<close>

definition main_fix_all_error_responses :: "fs \<Rightarrow> run" where
  "main_fix_all_error_responses =
     rewrite_file puppetserver_ts (add_debug_to_early_returns_fix \<circ> fix_error_responses)
       ([CHR 0xC3, CHR 0xA2, CHR 0xC5, CHR 0x93, CHR 0xE2, CHR 0x80, CHR 0x9C]
        @ '' Fixed all error responses'')"

section \<open>\<open>transform-expert-mode.py\<close>\<close>

definition handle_pattern :: regex where
  "handle_pattern =
     Seqs [Lit ''handleExpertModeResponse'', Star (Sym CSpace), Lit ''('', Star (Sym CSpace),
           Lit ''req,'', Star (Sym CSpace), Lit ''res,'', Star (Sym CSpace),
           Lit ''responseData,'', Star (Sym CSpace),
           Lit [CHR 0x27], Group 1 (Plus (Sym (CNot (CHR 0x27)))), Lit [CHR 0x27, CHR '',''],
           Star (Sym CSpace), Lit ''duration,'', Star (Sym CSpace),
           Lit [CHR 0x27], Group 2 (Plus (Sym (CNot (CHR 0x27)))), Lit [CHR 0x27, CHR '',''],
           Star (Sym CSpace), Lit ''{'', Group 3 (Star (Sym (CNot CHR ''}''))), Lit ''}'',
           Star (Sym CSpace), Lit '');'']"

definition expert_result_head :: "string" where
  \<open>expert_result_head =
     ''if (debugInfo) {\<newline>'' @
     ''          debugInfo.duration = duration;''\<close>

definition expert_result_metadata :: "string \<Rightarrow> string \<Rightarrow> string" where
  \<open>expert_result_metadata key val =
     ''\<newline>'' @
     ''          expertModeService.addMetadata(debugInfo, '' @ [CHR 0x27] @
     key @
     [CHR 0x27] @ '', '' @
     val @
     '');''\<close>

definition expert_result_tail :: "string" where
  \<open>expert_result_tail =
     ''\<newline>'' @
     ''          debugInfo.performance = expertModeService.collectPerformanceMetrics();\<newline>'' @
     ''          debugInfo.context = expertModeService.collectRequestContext(req);\<newline>'' @
     ''          res.json(expertModeService.attachDebugInfo(responseData, debugInfo));\<newline>'' @
     ''        } else {\<newline>'' @
     ''          res.json(responseData);\<newline>'' @
     ''        }''\<close>

definition handle_replacement :: "re_match \<Rightarrow> string" where
  "handle_replacement m =
     (let operation = group m 1;
          integration = group m 2;
          metadata = strip (group m 3);
          result = expert_result_head;
          result =
            (if metadata \<noteq> [] then
               (let parts = split_on CHR '':'' metadata
                in if length parts = 2 then
                     (let key = strip (parts ! 0); val = strip (parts ! 1)
                      in result @ expert_result_metadata key val)
                   else result)
             else result)
      in result @ expert_result_tail)"

definition transform_handle_expert_mode_response :: "string \<Rightarrow> string" where
  "transform_handle_expert_mode_response content = re_sub handle_pattern handle_replacement content"

text \<open>The two import steps of \<open>main\<close>: the obsolete helper goes out of the import list,
  the import of the service comes in unless the text already has one.\<close>

definition remove_obsolete_import :: "string \<Rightarrow> string" where
  "remove_obsolete_import content =
     re_sub (Seq (Lit ''handleExpertModeResponse,'') (Star (Sym CSpace))) (\<lambda>_. []) content"

definition utils_import :: string where
  \<open>utils_import = ''from "./utils";''\<close>

definition service_import :: string where
  \<open>service_import =
     ''from "./utils";\<newline>'' @
     ''import { ExpertModeService } from "../../services/ExpertModeService";''\<close>

definition ensure_import :: "string \<Rightarrow> string" where
  "ensure_import content =
     (if \<not> contains ''import { ExpertModeService }'' content
      then replace utils_import service_import content
      else content)"

definition main_transform_expert_mode :: "fs \<Rightarrow> run" where
  "main_transform_expert_mode =
     rewrite_file puppetserver_ts
       (transform_handle_expert_mode_response \<circ> ensure_import \<circ> remove_obsolete_import)
       (check_mark @ '' Transformed Puppetserver routes'')"

section \<open>\<open>fix-lint-errors.py\<close>\<close>

definition template_patterns :: "(regex \<times> (re_match \<Rightarrow> string)) list" where
  "template_patterns =
     [(Seqs [Lit ''${'', Group 1 (Seq (Plus (Sym (CNot CHR ''}''))) (Lit ''.length'')), Lit ''}''],
       \<lambda>m. ''${String('' @ group m 1 @ '')}''),
      (Seqs [Lit ''${'', Group 1 (Alts [Lit ''count'', Lit ''total'', Lit ''size'', Lit ''index'',
                                        Lit ''page'', Lit ''limit'', Lit ''offset'']), Lit ''}''],
       \<lambda>m. ''${String('' @ group m 1 @ '')}'')]"

definition fix_template_literals :: "string \<Rightarrow> string" where
  "fix_template_literals content =
     foldl (\<lambda>content (pattern, replacement). re_sub pattern replacement content)
           content template_patterns"

text \<open>In the third replacement template the escape \<open>\'\<close> is none that \<open>re\<close> knows, so
  the backslashes stay in the output.\<close>

definition nullish_patterns :: "(regex \<times> (re_match \<Rightarrow> string)) list" where
  \<open>nullish_patterns =
     [(Seqs [Group 1 (Plus (Sym CWord)), Star (Sym CSpace), Lit ''||'', Star (Sym CSpace),
             Lit ''0'', WordB],
       \<lambda>m. group m 1 @ '' ?? 0''),
      (Seqs [Group 1 (Plus (Sym CWord)), Star (Sym CSpace), Lit ''||'', Star (Sym CSpace),
             Lit ''""''],
       \<lambda>m. group m 1 @ '' ?? ""''),
      (Seqs [Group 1 (Plus (Sym CWord)), Star (Sym CSpace), Lit ''||'', Star (Sym CSpace),
             Lit [CHR 0x27, CHR 0x27]],
       \<lambda>m. group m 1 @ '' ?? '' @ [CHR 0x5C, CHR 0x27, CHR 0x5C, CHR 0x27])]\<close>

definition fix_nullish_coalescing :: "string \<Rightarrow> string" where
  "fix_nullish_coalescing content =
     foldl (\<lambda>content (pattern, replacement). re_sub pattern replacement content)
           content nullish_patterns"

text \<open>
  \<open>Path('backend/src').rglob('*.ts')\<close>: the entries below the directory whose name ends
  in \<open>.ts\<close>, in the order of the listing.  \<open>read_text\<close> raises on a directory and on a
  file that cannot be read; the text of the exception is what \<open>str(e)\<close> gives.
\<close>

definition rglob_ts :: "fs \<Rightarrow> string \<Rightarrow> (string \<times> node) list" where
  "rglob_ts fs dir =
     (if map_of fs dir = Some Dir
      then filter (\<lambda>(path, n). prefix (dir @ ''/'') path \<and> suffix ''.ts'' path
                                 \<and> length (dir @ ''/'') < length path) fs
      else [])"

definition read_text :: "string \<times> node \<Rightarrow> string + string" where
  "read_text e =
     (case e of
        (path, Dir) \<Rightarrow> Inl (''[Errno 21] Is a directory: '' @ [CHR 0x27] @ path @ [CHR 0x27])
      | (path, File c r w) \<Rightarrow>
          if r then Inr c
          else Inl (''[Errno 13] Permission denied: '' @ [CHR 0x27] @ path @ [CHR 0x27]))"

definition process_ts_file :: "string \<times> node \<Rightarrow> string list" where
  "process_ts_file ts_file =
     (case read_text ts_file of
        Inl e \<Rightarrow> [''Error processing '' @ fst ts_file @ '': '' @ e]
      | Inr original \<Rightarrow>
          (let content = fix_template_literals original;
               content = fix_nullish_coalescing content
           in if content \<noteq> original
              then [''Fixed: '' @ drop (length ''backend/'') (fst ts_file)]
              else []))"

definition main_fix_lint_errors :: "fs \<Rightarrow> run" where
  "main_fix_lint_errors fs =
     (let backend_src = ''backend/src'' in
      if map_of fs backend_src = None
      then \<lparr> files = fs, printed = [''Error: backend/src directory not found''],
             raised = Some (SystemExit 1) \<rparr>
      else
        (let ts_files = rglob_ts fs backend_src
         in \<lparr> files = fs,
              printed =
                [''Found '' @ str_nat (length ts_files) @ '' TypeScript files'',
                 ''Note: This script makes conservative fixes.'',
                 ''Manual review is still required for complex cases.\<newline>'']
                @ concat (map process_ts_file ts_files),
              raised = None \<rparr>))"

section \<open>\<open>add-logging-to-routes.py\<close>\<close>

definition route_pattern :: regex where
  \<open>route_pattern =
     Seqs [Lit ''router.'', Group 1 (Alts [Lit ''get'', Lit ''post'', Lit ''delete'']), Lit ''('',
           Star (Sym CSpace), Lit ''"'', Group 2 (Plus (Sym (CNot CHR ''"''))), Lit ''"'']\<close>

text \<open>\<open>str.upper\<close> on the method, which is one of the three lower-case words of the
  pattern.\<close>

definition upper :: "string \<Rightarrow> string" where
  "upper s = map (\<lambda>c. let n = (of_char c :: nat) in
                       if 97 \<le> n \<and> n \<le> 122 then char_of (n - 32) else c) s"

definition integrations_ts :: string where
  "integrations_ts = ''backend/src/routes/integrations.ts''"

text \<open>\<open>main\<close> lists the routes it finds and prints advice; it neither calls
  \<open>add_logging_to_route\<close> nor opens a file for writing.\<close>

definition main_add_logging_to_routes :: "fs \<Rightarrow> run" where
  \<open>main_add_logging_to_routes fs =
     (case open_read fs integrations_ts of
        Inl FileNotFoundError \<Rightarrow>
          \<lparr> files = fs, printed = [''Error: Could not find '' @ integrations_ts],
            raised = Some (SystemExit 1) \<rparr>
      | Inl e \<Rightarrow> \<lparr> files = fs, printed = [], raised = Some e \<rparr>
      | Inr content \<Rightarrow>
          (let found = re_finditer route_pattern content;
               routes_found = length found
           in \<lparr> files = fs,
                printed =
                  map (\<lambda>m. ''Processing: '' @ upper (group m 1) @ '' '' @ group m 2) found @
                  [''\<newline>Found '' @ str_nat routes_found @ '' routes'',
                   ''Pattern established - manual updates recommended for remaining routes'',
                   ''\<newline>To complete the updates:'',
                   ''1. Add 'const startTime = Date.now();' at the start of each route handler'',
                   ''2. Add logger.info() call after startTime'',
                   ''3. Add logger.error/warn/debug calls in appropriate places'',
                   ''4. Replace console.* calls with logger.* calls'',
                   ''5. Add handleExpertModeResponse() call before res.json()'',
                   ''6. Calculate duration and pass to handleExpertModeResponse()''],
                raised = None \<rparr>))\<close>

section \<open>The matcher and the substitution loop\<close>

lemma ms_suffix: "q' \<in> set (ms r q) \<Longrightarrow> suffix (rest q') (rest q)"
proof (induction r q arbitrary: q' rule: ms.induct)
  case (1 q) then show ?case by simp
next
  case (2 cs p s g)
  then show ?case by (auto split: list.splits if_splits simp: suffix_Cons)
next
  case (3 a b q)
  then obtain q1 where q1: "q1 \<in> set (ms a q)" "q' \<in> set (ms b q1)" by auto
  from 3(1) [OF q1(1)] 3(2) [OF q1] show ?case by (rule suffix_order.trans [rotated])
next
  case (4 a b q) then show ?case by auto
next
  case (5 a q)
  from 5(3) have "q' = q \<or> (\<exists>q1 \<in> set (ms a q). length (rest q1) < length (rest q) \<and> q' \<in> set (ms (Star a) q1))"
    by (subst (asm) ms_Star_mem)
  then show ?case
  proof
    assume "q' = q" then show ?thesis by simp
  next
    assume "\<exists>q1 \<in> set (ms a q). length (rest q1) < length (rest q) \<and> q' \<in> set (ms (Star a) q1)"
    then obtain q1 where q1: "q1 \<in> set (ms a q)" "length (rest q1) < length (rest q)" "q' \<in> set (ms (Star a) q1)" by blast
    from 5(2) [OF q1] 5(1) [OF q1(1)] show ?thesis by (rule suffix_order.trans)
  qed
next
  case (6 a q)
  from 6(3) have "q' = q \<or> (\<exists>q1 \<in> set (ms a q). length (rest q1) < length (rest q) \<and> q' \<in> set (ms (LazyStar a) q1))"
    by (subst (asm) ms_LazyStar_mem)
  then show ?case
  proof
    assume "q' = q" then show ?thesis by simp
  next
    assume "\<exists>q1 \<in> set (ms a q). length (rest q1) < length (rest q) \<and> q' \<in> set (ms (LazyStar a) q1)"
    then obtain q1 where q1: "q1 \<in> set (ms a q)" "length (rest q1) < length (rest q)" "q' \<in> set (ms (LazyStar a) q1)" by blast
    from 6(2) [OF q1] 6(1) [OF q1(1)] show ?thesis by (rule suffix_order.trans)
  qed
next
  case (7 n a q)
  then show ?case by auto
next
  case (8 q) then show ?case by (auto split: if_splits)
qed

lemma first_match_suffix: "first_match ma r p s = Some q \<Longrightarrow> suffix (rest q) s"
  unfolding first_match_def
  by (auto simp: find_Some_iff dest!: ms_suffix [OF nth_mem])

lemma take_suffix: "suffix t s \<Longrightarrow> take (length s - length t) s @ t = s"
  by (auto simp: suffix_def)

lemma search_split:
  "search r ma p s = Some m \<Longrightarrow> s = skipped m @ group0 m @ remaining m"
proof (induction s arbitrary: ma p m)
  case Nil
  then show ?case by (auto simp: mk_match_def dest: first_match_suffix)
next
  case (Cons c cs)
  show ?case
  proof (cases "first_match ma r p (c # cs)")
    case (Some q)
    with Cons.prems have m: "m = mk_match (c # cs) q" by simp
    from take_suffix [OF first_match_suffix [OF Some]] show ?thesis
      by (simp add: m mk_match_def)
  next
    case None
    with Cons.prems obtain m' where m': "search r False (Some c) cs = Some m'"
      and m: "m = m'\<lparr>skipped := c # skipped m'\<rparr>" by auto
    from Cons.IH [OF m'] show ?thesis by (simp add: m)
  qed
qed

lemma sub_loop_frame:
  "sub_loop r f ma p s = concat (map (\<lambda>m. skipped m @ f m) (find_loop r ma p s)) @ tail_loop r ma p s"
proof (induction r f ma p s rule: sub_loop.induct)
  case (1 r f ma p s)
  show ?case
  proof (cases "search r ma p s")
    case None
    then show ?thesis by (simp add: sub_loop.simps [of r f ma p s] find_loop.simps [of r ma p s] tail_loop.simps [of r ma p s])
  next
    case (Some m)
    from 1 [OF Some] Some show ?thesis
      by (simp add: sub_loop.simps [of r f ma p s] find_loop.simps [of r ma p s] tail_loop.simps [of r ma p s])
  qed
qed

lemma text_frame:
  "s = concat (map (\<lambda>m. skipped m @ group0 m) (find_loop r ma p s)) @ tail_loop r ma p s"
proof (induction r ma p s rule: find_loop.induct)
  case (1 r ma p s)
  show ?case
  proof (cases "search r ma p s")
    case None
    then show ?thesis by (simp add: find_loop.simps [of r ma p s] tail_loop.simps [of r ma p s])
  next
    case (Some m)
    let ?g = "\<lambda>m. skipped m @ group0 m"
    let ?ma = "group0 m = []" and ?p = "prev_char p (skipped m @ group0 m)" and ?s = "remaining m"
    have fl: "find_loop r ma p s = m # find_loop r ?ma ?p ?s"
      by (simp add: find_loop.simps [of r ma p s] Some)
    have tl: "tail_loop r ma p s = tail_loop r ?ma ?p ?s"
      by (simp add: tail_loop.simps [of r ma p s] Some)
    have "concat (map ?g (find_loop r ma p s)) @ tail_loop r ma p s
        = skipped m @ group0 m @ (concat (map ?g (find_loop r ?ma ?p ?s)) @ tail_loop r ?ma ?p ?s)"
      by (simp add: fl tl)
    also have "\<dots> = skipped m @ group0 m @ remaining m"
      by (simp only: 1 [OF Some, symmetric])
    also have "\<dots> = s"
      by (rule search_split [OF Some, symmetric])
    finally show ?thesis by simp
  qed
qed

lemma sub_loop_no_match: "search r ma p s = None \<Longrightarrow> sub_loop r f ma p s = s"
  by (simp add: sub_loop.simps [of r f ma p s])

lemma re_sub_no_match: "re_search r s = None \<Longrightarrow> re_sub r f s = s"
  by (simp add: re_search_def re_sub_def sub_loop_no_match)

lemma re_sub_frame:
  "re_sub r f s = concat (map (\<lambda>m. skipped m @ f m) (re_finditer r s)) @ re_tail r s"
  by (simp add: re_sub_def re_finditer_def re_tail_def sub_loop_frame)

lemma re_text_frame:
  "s = concat (map (\<lambda>m. skipped m @ group0 m) (re_finditer r s)) @ re_tail r s"
  unfolding re_finditer_def re_tail_def by (rule text_frame)

section \<open>String methods: facts\<close>

lemma prefix_contains: "prefix n s \<Longrightarrow> contains n s"
  by (cases s) auto

lemma contains_append: "contains n (xs @ n @ ys)"
  by (induction xs) (auto simp: prefix_contains)

lemma length_split_on: "length (split_on c s) = Suc (count_list s c)"
proof (induction c s rule: split_on.induct)
  case (1 sep s)
  define t where "t = takeWhile (\<lambda>c. c \<noteq> sep) s"
  define d where "d = dropWhile (\<lambda>c. c \<noteq> sep) s"
  have td: "s = t @ d" by (simp add: t_def d_def)
  have "sep \<notin> set t" unfolding t_def by (auto dest: set_takeWhileD)
  then have t0: "count_list t sep = 0" by (simp add: count_list_0_iff)
  show ?case
  proof (cases d)
    case Nil
    with td t0 have "count_list s sep = 0" by simp
    moreover have "split_on sep s = [s]"
      using Nil by (simp add: split_on.simps [of sep s] d_def [symmetric])
    ultimately show ?thesis by simp
  next
    case (Cons x s')
    have "x = sep"
    proof -
      have "d \<noteq> []" using Cons by simp
      then have "\<not> (hd d \<noteq> sep)" unfolding d_def by (rule hd_dropWhile)
      with Cons show ?thesis by simp
    qed
    with Cons td t0 have cnt: "count_list s sep = Suc (count_list s' sep)" by simp
    have ih: "length (split_on sep s') = Suc (count_list s' sep)"
      using Cons by (intro 1) (simp add: d_def)
    have "split_on sep s = t # split_on sep s'"
      using Cons by (simp add: split_on.simps [of sep s] d_def [symmetric] t_def)
    with ih cnt show ?thesis by simp
  qed
qed

section \<open>The metadata argument of \<open>handleExpertModeResponse\<close>\<close>

lemma fixed_result_no_metadata:
  "\<not> contains ''expertModeService.addMetadata('' (expert_result_head @ expert_result_tail)"
  by code_simp

text \<open>A call whose metadata is a URL: two colons.\<close>

definition url_call :: re_match where
  "url_call = \<lparr> skipped = [], group0 = [], remaining = [],
                  groups = [1 \<mapsto> ''op'', 2 \<mapsto> ''puppetserver'', 3 \<mapsto> '' url: http://x ''] \<rparr>"

text \<open>
  Claim C9.  The replacement built for a call of \<open>handleExpertModeResponse\<close> contains an
  \<open>expertModeService.addMetadata\<close> call exactly when the captured metadata, stripped, is
  not empty and \<open>split(':')\<close> gives exactly two parts.  \<open>split\<close> gives one part more than
  there are colons, so with no colon or with more than one colon the replacement is the
  fixed text without any metadata line.
\<close>

theorem metadata_iff_two_parts:
  "(contains ''expertModeService.addMetadata('' (handle_replacement m)
      \<longleftrightarrow> strip (group m 3) \<noteq> [] \<and> length (split_on CHR '':'' (strip (group m 3))) = 2)
   \<and> (count_list (strip (group m 3)) CHR '':'' \<noteq> 1
      \<longrightarrow> handle_replacement m = expert_result_head @ expert_result_tail)"
proof -
  let ?md = "strip (group m 3)"
  let ?parts = "split_on CHR '':'' ?md"
  show ?thesis
  proof (cases "?md \<noteq> [] \<and> length ?parts = 2")
    case True
    then have "handle_replacement m =
        expert_result_head @ expert_result_metadata (strip (?parts ! 0)) (strip (?parts ! 1)) @ expert_result_tail"
      by (simp add: handle_replacement_def Let_def)
    also have "\<dots> = (expert_result_head @ ''\<newline>          '') @ ''expertModeService.addMetadata('' @
        (''debugInfo, '' @ [CHR 0x27] @ strip (?parts ! 0) @ [CHR 0x27] @ '', '' @ strip (?parts ! 1) @ '');'' @ expert_result_tail)"
      by (simp add: expert_result_metadata_def)
    finally have "contains ''expertModeService.addMetadata('' (handle_replacement m)"
      by (simp only: contains_append)
    moreover from True have "count_list ?md CHR '':'' = 1"
      by (simp add: length_split_on)
    ultimately show ?thesis using True by simp
  next
    case False
    then have "handle_replacement m = expert_result_head @ expert_result_tail"
      by (auto simp: handle_replacement_def Let_def)
    with False fixed_result_no_metadata show ?thesis by simp
  qed
qed

theorem metadata_iff_two_parts_witness:
  "count_list (strip (group url_call 3)) CHR '':'' = 2
   \<and> handle_replacement url_call = expert_result_head @ expert_result_tail"
proof -
  have c: "count_list (strip (group url_call 3)) CHR '':'' = 2"
    by (simp add: url_call_def group_def strip_def is_space_def)
  with metadata_iff_two_parts [of url_call] show ?thesis by simp
qed

section \<open>Scripts that only report\<close>

definition lint_tree :: fs where
  "lint_tree = [(''backend/src'', Dir), (''backend/src/a.ts'', File ''n = x || 0;'' True True)]"

definition routes_tree :: fs where
  \<open>routes_tree = [(integrations_ts, File ''router.get("/a", h);'' True True)]\<close>

lemma lint_tree_printed:
  "printed (main_fix_lint_errors lint_tree) =
     [''Found 1 TypeScript files'', ''Note: This script makes conservative fixes.'',
      ''Manual review is still required for complex cases.\<newline>'', ''Fixed: src/a.ts'']"
  by code_simp

lemma routes_tree_printed:
  "take 2 (printed (main_add_logging_to_routes routes_tree)) =
     [''Processing: GET /a'', ''\<newline>Found 1 routes'']"
  by code_simp

text \<open>
  Claim C10.  \<open>fix-lint-errors.py\<close> and \<open>add-logging-to-routes.py\<close> leave every file as it
  was, whatever the file system holds: the first computes the fixed text and only prints
  the name of the file, the second only lists the routes.
\<close>

theorem lint_and_logging_never_write:
  "files (main_fix_lint_errors fs) = fs \<and> files (main_add_logging_to_routes fs) = fs"
  by (simp add: main_fix_lint_errors_def main_add_logging_to_routes_def Let_def
           split: sum.splits py_error.splits)

theorem lint_and_logging_never_write_witness:
  "files (main_fix_lint_errors lint_tree) = lint_tree
   \<and> printed (main_fix_lint_errors lint_tree) =
     [''Found 1 TypeScript files'', ''Note: This script makes conservative fixes.'',
      ''Manual review is still required for complex cases.\<newline>'', ''Fixed: src/a.ts'']
   \<and> files (main_add_logging_to_routes routes_tree) = routes_tree
   \<and> take 2 (printed (main_add_logging_to_routes routes_tree)) =
     [''Processing: GET /a'', ''\<newline>Found 1 routes'']"
  using lint_and_logging_never_write [of lint_tree] lint_and_logging_never_write [of routes_tree]
    lint_tree_printed routes_tree_printed
  by simp

section \<open>What a pass leaves alone\<close>

definition one_response :: string where
  "one_response = ''x = 1; res.status(404).json({ error: { code: 1 } }); y''"

lemma one_response_matches:
  "map (\<lambda>m. (skipped m, group0 m, group m 1, group m 2))
       (re_finditer error_response_pattern one_response)
     = [(''x = 1; '', ''res.status(404).json({ error: { code: 1 } });'', ''404'', '' code: 1 '')]"
  "re_tail error_response_pattern one_response = '' y''"
  by code_simp+

text \<open>
  Claim C4.  A pass cuts the text into the stretches before each match, the matches, and
  the text after the last match.  Its output keeps every stretch outside the matches as
  it is and in place, and puts the replacement where each match was.
\<close>

theorem outside_matches_preserved:
  "T = concat (map (\<lambda>m. skipped m @ group0 m) (re_finditer error_response_pattern T))
         @ re_tail error_response_pattern T
   \<and> add_debug_to_error_responses T
       = concat (map (\<lambda>m. skipped m @ error_response_replacement m)
                     (re_finditer error_response_pattern T))
         @ re_tail error_response_pattern T
   \<and> T = concat (map (\<lambda>m. skipped m @ group0 m) (re_finditer fix_pattern T))
         @ re_tail fix_pattern T
   \<and> fix_error_responses T
       = concat (map (\<lambda>m. skipped m @ fix_replacement m) (re_finditer fix_pattern T))
         @ re_tail fix_pattern T"
  unfolding add_debug_to_error_responses_def fix_error_responses_def re_sub_frame
  using re_text_frame [of T error_response_pattern] re_text_frame [of T fix_pattern]
  by simp

theorem outside_matches_preserved_witness:
  "map (\<lambda>m. (skipped m, group0 m)) (re_finditer error_response_pattern one_response)
     = [(''x = 1; '', ''res.status(404).json({ error: { code: 1 } });'')]
   \<and> re_tail error_response_pattern one_response = '' y''
   \<and> add_debug_to_error_responses one_response
       = ''x = 1; '' @ error_response_text ''404'' '' code: 1 '' @ '' y''"
proof -
  obtain m where m: "re_finditer error_response_pattern one_response = [m]"
    using one_response_matches(1) by auto
  with one_response_matches have "skipped m = ''x = 1; ''" "group m 1 = ''404''"
    "group m 2 = '' code: 1 ''" "group0 m = ''res.status(404).json({ error: { code: 1 } });''"
    by simp_all
  with m one_response_matches(2) outside_matches_preserved [of one_response]
  show ?thesis by (simp add: error_response_replacement_def)
qed

section \<open>A pass that finds nothing\<close>

lemma foldl_unchanged:
  "(\<And>x. x \<in> set xs \<Longrightarrow> f s x = s) \<Longrightarrow> foldl f s xs = s"
  by (induction xs) auto

lemma fix_operation_names_no_match:
  assumes "\<forall>rt \<in> set routes. re_search (operation_pattern (fst rt)) T = None"
  shows "fix_operation_names T = T"
  unfolding fix_operation_names_def
proof (rule foldl_unchanged)
  fix x assume "x \<in> set routes"
  with assms have "re_search (operation_pattern (fst x)) T = None" by blast
  then show "(case x of (rp, operation_name) \<Rightarrow>
      re_sub (operation_pattern rp) (replace_op operation_name) T) = T"
    by (cases x) (simp add: re_sub_no_match)
qed

lemma rewrite_file_raised:
  "raised (rewrite_file path f msg fs) = None \<longleftrightarrow> (\<exists>c. map_of fs path = Some (File c True True))"
  by (auto simp: rewrite_file_def open_read_def open_write_def split: option.splits node.splits sum.splits if_splits)

definition plain_text :: string where
  "plain_text = ''const x = 1;''"

definition plain_tree :: fs where
  "plain_tree = [(puppetserver_ts, File plain_text True True),
                 (integrations_ts, File plain_text True True)]"

lemma plain_text_no_match:
  "re_search init_pattern plain_text = None"
  "\<forall>rt \<in> set routes. re_search (operation_pattern (fst rt)) plain_text = None"
  "re_finditer route_pattern plain_text = []"
  by code_simp+

text \<open>
  Claim C6.  Where the pattern of a pass has no match the pass returns its input; this
  holds for \<open>re.sub\<close> with any pattern and replacement, and so for the two passes of
  \<open>add-expert-mode-init.py\<close>.  A run of that script ends without an exception exactly
  when the file is there, readable and writable, and a run of
  \<open>add-logging-to-routes.py\<close> exactly when its file is there and readable; with no route
  in the file it reports \<open>Found 0 routes\<close>.
\<close>

theorem zero_matches_not_an_error:
  "(re_search r T = None \<longrightarrow> re_sub r f T = T)
   \<and> (re_search init_pattern T = None \<longrightarrow> add_expert_mode_init T = T)
   \<and> ((\<forall>rt \<in> set routes. re_search (operation_pattern (fst rt)) T = None)
        \<longrightarrow> fix_operation_names T = T)
   \<and> (raised (main_add_expert_mode_init fs) = None
        \<longleftrightarrow> (\<exists>c. map_of fs puppetserver_ts = Some (File c True True)))
   \<and> (raised (main_add_logging_to_routes fs) = None
        \<longleftrightarrow> (\<exists>c w. map_of fs integrations_ts = Some (File c True w)))
   \<and> (map_of fs integrations_ts = Some (File T True w) \<and> re_finditer route_pattern T = []
        \<longrightarrow> raised (main_add_logging_to_routes fs) = None
          \<and> hd (printed (main_add_logging_to_routes fs)) = ''\<newline>Found 0 routes'')"
proof -
  have a: "raised (main_add_logging_to_routes fs) = None
        \<longleftrightarrow> (\<exists>c w. map_of fs integrations_ts = Some (File c True w))"
    by (auto simp: main_add_logging_to_routes_def open_read_def Let_def
             split: option.splits node.splits sum.splits py_error.splits if_splits)
  have b: "map_of fs integrations_ts = Some (File T True w) \<and> re_finditer route_pattern T = []
        \<longrightarrow> hd (printed (main_add_logging_to_routes fs)) = ''\<newline>Found 0 routes''"
    by (simp add: main_add_logging_to_routes_def open_read_def Let_def str_nat.simps [of 0] digit_char_def)
  show ?thesis
    using a b
    by (auto simp: re_sub_no_match add_expert_mode_init_def fix_operation_names_no_match
        main_add_expert_mode_init_def rewrite_file_raised)
qed

theorem zero_matches_not_an_error_witness:
  "add_expert_mode_init plain_text = plain_text
   \<and> fix_operation_names plain_text = plain_text
   \<and> raised (main_add_expert_mode_init plain_tree) = None
   \<and> raised (main_add_logging_to_routes plain_tree) = None
   \<and> hd (printed (main_add_logging_to_routes plain_tree)) = ''\<newline>Found 0 routes''"
proof -
  have "map_of plain_tree puppetserver_ts = Some (File plain_text True True)"
    and "map_of plain_tree integrations_ts = Some (File plain_text True True)"
    by (simp_all add: plain_tree_def puppetserver_ts_def integrations_ts_def)
  with plain_text_no_match
    zero_matches_not_an_error [of init_pattern plain_text expert_mode_init_replacement plain_tree True]
  show ?thesis by simp
qed

end
